theory Spec2Isabelle
  imports Complex_Main "HOL-Library.Word"
begin

unbundle bit_operations_syntax

section \<open>Data model\<close>

text \<open>
  go-ethereum's \<open>common.Address\<close> is a \<open>[20]byte\<close> and \<open>common.Hash\<close> a \<open>[32]byte\<close>,
  both compared bytewise. They are modelled as the 160-bit and 256-bit words whose
  big-endian byte representation is the array, so that equality of words is equality of
  the arrays.
\<close>

type_synonym address = "160 word"
type_synonym hash = "256 word"

text \<open>The fields of \<open>types.Log\<close> that the filters read.\<close>

record Log =
  Address :: address
  Topics :: "hash list"
  BlockNumber :: "64 word"
  TxHash :: hash
  Index :: "64 word"

text \<open>
  \<open>ContractFilter\<close> (contract_filter.go). The \<open>map[common.Address]bool\<close> is a partial
  map; reading a missing key in Go gives \<open>false\<close> (\<open>nft_lookup\<close>), and \<open>len\<close> counts
  the keys. The mutex is not modelled: every operation below is one critical section and
  the model runs them one after another. \<open>time.Duration\<close> is an \<open>int64\<close> of nanoseconds.
\<close>

record ContractFilter =
  factoryAddress :: address
  paymentAddress :: address
  nftContracts :: "address \<rightharpoonup> bool"
  enabled :: bool
  autoDiscovery :: bool
  mongodbSyncEnabled :: bool
  mongodbSyncInterval :: "64 word"

definition nft_lookup :: "(address \<rightharpoonup> bool) \<Rightarrow> address \<Rightarrow> bool" where
  "nft_lookup m a = (case m a of None \<Rightarrow> False | Some b \<Rightarrow> b)"

definition nft_len :: "(address \<rightharpoonup> bool) \<Rightarrow> nat" where
  "nft_len m = card (dom m)"

text \<open>
  What the program writes with \<open>fmt.Printf\<close>, one constructor per format string, with
  the values that are formatted into it.
\<close>

datatype printed =
    AddedNFTContract address nat
  | AddedNFTContracts nat nat
  | SyncedFromMongoDB nat
  | InvalidNFTContractCreated
  | DiscoveredNFTContract address
  | BackfillStart nat
  | BackfillComplete nat
  | FetchedLogs nat nat "int option" "int option"
  | UpdatedAddressFilter nat

text \<open>
  Go error values: one produced by a library call (\<open>os\<close>, \<open>encoding/json\<close>, the RPC
  client), or one built by \<open>fmt.Errorf\<close> from a message and, with \<open>%w\<close>, the error it
  wraps.
\<close>

datatype error = LibraryError string | Errorf string "error option"

section \<open>Contract filter\<close>

definition ShouldIndexLog :: "ContractFilter \<Rightarrow> address \<Rightarrow> bool" where
  "ShouldIndexLog cf address =
     (if \<not> enabled cf then True
      else if address = ContractFilter.factoryAddress cf then True
      else if address = paymentAddress cf then True
      else if nft_lookup (nftContracts cf) address then True
      else False)"

definition AddNFTContract :: "ContractFilter \<Rightarrow> address \<Rightarrow> ContractFilter \<times> printed list" where
  "AddNFTContract cf address =
     (if \<not> nft_lookup (nftContracts cf) address
      then (let m = (nftContracts cf)(address \<mapsto> True)
            in (cf\<lparr>nftContracts := m\<rparr>, [AddedNFTContract address (nft_len m)]))
      else (cf, []))"

text \<open>The loop of \<open>AddNFTContracts\<close>, carrying the map and \<open>newCount\<close>.\<close>

fun AddNFTContracts_loop ::
  "(address \<rightharpoonup> bool) \<Rightarrow> nat \<Rightarrow> address list \<Rightarrow> (address \<rightharpoonup> bool) \<times> nat" where
  "AddNFTContracts_loop m newCount [] = (m, newCount)"
| "AddNFTContracts_loop m newCount (addr # addresses) =
     (if \<not> nft_lookup m addr
      then AddNFTContracts_loop (m(addr \<mapsto> True)) (newCount + 1) addresses
      else AddNFTContracts_loop m newCount addresses)"

definition AddNFTContracts :: "ContractFilter \<Rightarrow> address list \<Rightarrow> ContractFilter \<times> printed list" where
  "AddNFTContracts cf addresses =
     (case AddNFTContracts_loop (nftContracts cf) 0 addresses of
        (m, newCount) \<Rightarrow>
          (cf\<lparr>nftContracts := m\<rparr>,
           if newCount > 0 then [AddedNFTContracts newCount (nft_len m)] else []))"

text \<open>
  \<open>GetWatchedAddresses\<close> appends the factory address, the payment address and then
  the keys of the map in the order of \<open>for addr := range cf.nftContracts\<close>. Go leaves
  that order unspecified; each key is visited once. The model is the relation between
  the filter and every slice the call may return.
\<close>

inductive GetWatchedAddresses :: "ContractFilter \<Rightarrow> address list \<Rightarrow> bool" where
  "distinct keys \<Longrightarrow> set keys = dom (nftContracts cf) \<Longrightarrow>
   GetWatchedAddresses cf (ContractFilter.factoryAddress cf # paymentAddress cf # keys)"

text \<open>
  \<open>Address.Hex\<close> of go-ethereum: \<open>hex\<close> writes \<open>0x\<close> and the 20 bytes with
  \<open>encoding/hex\<close> (two digits of \<open>hextable\<close> per byte, high nibble first);
  \<open>checksumHex\<close> then turns a letter into upper case where the corresponding nibble of
  the Keccak-256 hash of the 40 digits is above 7. The hash function is an argument.
\<close>

definition hextable :: string where
  "hextable = ''0123456789abcdef''"

definition Address_Bytes :: "address \<Rightarrow> 8 word list" where
  "Address_Bytes a = map (\<lambda>i. ucast (drop_bit (8 * (19 - i)) a)) [0..<20]"

definition Hash_Bytes :: "hash \<Rightarrow> 8 word list" where
  "Hash_Bytes h = map (\<lambda>i. ucast (drop_bit (8 * (31 - i)) h)) [0..<32]"

fun hex_Encode :: "8 word list \<Rightarrow> string" where
  "hex_Encode [] = []"
| "hex_Encode (v # src) =
     hextable ! unat (drop_bit 4 v) # hextable ! unat (v AND 0x0f) # hex_Encode src"

definition Address_hex :: "address \<Rightarrow> string" where
  "Address_hex a = ''0x'' @ hex_Encode (Address_Bytes a)"

definition checksumHex :: "(string \<Rightarrow> hash) \<Rightarrow> address \<Rightarrow> string" where
  "checksumHex Keccak256 a =
     (let buf = Address_hex a;
          hash = Hash_Bytes (Keccak256 (drop 2 buf))
      in take 2 buf @
         map (\<lambda>i. let hashByte = hash ! ((i - 2) div 2);
                       hashByte = (if i mod 2 = 0 then drop_bit 4 hashByte else hashByte AND 0x0f)
                   in if (of_char (buf ! i) :: nat) > 57 \<and> hashByte > 7
                      then char_of ((of_char (buf ! i) :: nat) - 32)
                      else buf ! i)
           [2..<length buf])"

definition Hex :: "(string \<Rightarrow> hash) \<Rightarrow> address \<Rightarrow> string" where
  "Hex Keccak256 a = checksumHex Keccak256 a"

text \<open>
  \<open>strings.ToLower\<close> on a string of ASCII bytes, which is what \<open>Hex\<close> returns: the
  letters \<open>A\<close> to \<open>Z\<close> are moved down by 32 and every other byte is kept.
\<close>

definition ToLower :: "string \<Rightarrow> string" where
  "ToLower s =
     map (\<lambda>c. if 65 \<le> (of_char c :: nat) \<and> (of_char c :: nat) \<le> 90
               then char_of ((of_char c :: nat) + 32) else c) s"

inductive GetAddressFilter :: "(string \<Rightarrow> hash) \<Rightarrow> ContractFilter \<Rightarrow> string list \<Rightarrow> bool" where
  "GetWatchedAddresses cf addresses \<Longrightarrow>
   GetAddressFilter Keccak256 cf (map (\<lambda>addr. ToLower (Hex Keccak256 addr)) addresses)"

section \<open>Configuration\<close>

text \<open>
  The fields of \<open>ContractConfig\<close> that \<open>NewContractFilter\<close> reads, named by their
  path in the nested struct. \<open>json.Unmarshal\<close> leaves a field that the document does
  not have at its zero value: the empty string, \<open>false\<close>, \<open>0\<close>, the empty slice.
\<close>

record ContractConfig =
  Contracts_Factory_Address :: string
  Contracts_Payment_Address :: string
  Contracts_NFTContracts :: "string list"
  EventFilters_Enabled :: bool
  SyncSettings_MongoDBSync_Enabled :: bool
  SyncSettings_MongoDBSync_IntervalSeconds :: "64 word"
  SyncSettings_AutoDiscovery_Enabled :: bool

text \<open>
  \<open>common.HexToAddress\<close> of go-ethereum, which never fails. \<open>FromHex\<close> drops a
  \<open>0x\<close> or \<open>0X\<close> prefix and pads an odd number of digits with a leading \<open>0\<close>;
  \<open>Hex2Bytes\<close> keeps the bytes that \<open>hex.DecodeString\<close> has decoded before the first
  character that is not a hexadecimal digit and discards its error; \<open>BytesToAddress\<close>
  keeps the last 20 bytes and right-aligns fewer, the missing leading bytes being zero.
\<close>

definition has0xPrefix :: "string \<Rightarrow> bool" where
  "has0xPrefix str =
     (length str \<ge> 2 \<and> str ! 0 = CHR ''0'' \<and> (str ! 1 = CHR ''x'' \<or> str ! 1 = CHR ''X''))"

definition fromHexChar :: "char \<Rightarrow> 8 word option" where
  "fromHexChar c =
     (let n = (of_char c :: nat) in
      if 48 \<le> n \<and> n \<le> 57 then Some (of_nat (n - 48))
      else if 97 \<le> n \<and> n \<le> 102 then Some (of_nat (n - 97 + 10))
      else if 65 \<le> n \<and> n \<le> 70 then Some (of_nat (n - 65 + 10))
      else None)"

fun hex_Decode :: "string \<Rightarrow> 8 word list" where
  "hex_Decode (p # q # src) =
     (case fromHexChar p of
        None \<Rightarrow> []
      | Some a \<Rightarrow>
          (case fromHexChar q of
             None \<Rightarrow> []
           | Some b \<Rightarrow> (push_bit 4 a OR b) # hex_Decode src))"
| "hex_Decode src = []"

definition Hex2Bytes :: "string \<Rightarrow> 8 word list" where
  "Hex2Bytes str = hex_Decode str"

definition FromHex :: "string \<Rightarrow> 8 word list" where
  "FromHex s =
     (let s1 = (if has0xPrefix s then drop 2 s else s);
          s2 = (if length s1 mod 2 = 1 then CHR ''0'' # s1 else s1)
      in Hex2Bytes s2)"

definition BytesToAddress :: "8 word list \<Rightarrow> address" where
  "BytesToAddress b =
     word_rcat (if length b > 20 then drop (length b - 20) b else b)"

definition HexToAddress :: "string \<Rightarrow> address" where
  "HexToAddress s = BytesToAddress (FromHex s)"

text \<open>
  \<open>NewContractFilter\<close>. \<open>os.ReadFile\<close> and \<open>json.Unmarshal\<close> are arguments: what
  reading a path gives, and what decoding the bytes into a zero \<open>ContractConfig\<close> gives.
  The interval is \<open>time.Duration(seconds) * time.Second\<close>, an \<open>int64\<close> product.
\<close>

definition NewContractFilter ::
  "(string \<Rightarrow> error + 8 word list) \<Rightarrow> (8 word list \<Rightarrow> error + ContractConfig) \<Rightarrow>
   string \<Rightarrow> error + ContractFilter" where
  "NewContractFilter ReadFile Unmarshal configPath =
     (case ReadFile configPath of
        Inl err \<Rightarrow> Inl (Errorf ''failed to read config file'' (Some err))
      | Inr data \<Rightarrow>
          (case Unmarshal data of
             Inl err \<Rightarrow> Inl (Errorf ''failed to parse config'' (Some err))
           | Inr config \<Rightarrow>
               Inr \<lparr>factoryAddress = HexToAddress (Contracts_Factory_Address config),
                    paymentAddress = HexToAddress (Contracts_Payment_Address config),
                    nftContracts =
                      foldl (\<lambda>m addr. if addr \<noteq> [] then m(HexToAddress addr \<mapsto> True) else m)
                        Map.empty (Contracts_NFTContracts config),
                    enabled = EventFilters_Enabled config,
                    autoDiscovery = SyncSettings_AutoDiscovery_Enabled config,
                    mongodbSyncEnabled = SyncSettings_MongoDBSync_Enabled config,
                    mongodbSyncInterval =
                      SyncSettings_MongoDBSync_IntervalSeconds config * 1000000000\<rparr>))"

section \<open>Event listener\<close>

text \<open>
  \<open>EventListener\<close> (event_listener.go). \<open>contractFilter\<close> is a pointer in Go; the
  record holds the filter it points to, and every operation returns the listener with
  the filter as the call has left it.
\<close>

record EventListener =
  contractFilter :: ContractFilter
  factoryAddress :: address

text \<open>
  \<open>common.BytesToAddress(h.Bytes())\<close> for a 32-byte hash \<open>h\<close>: \<open>SetBytes\<close> keeps the
  last 20 of the 32 bytes, which are the low 160 bits of the big-endian value.
\<close>

definition BytesToAddress_Hash :: "hash \<Rightarrow> address" where
  "BytesToAddress_Hash h = ucast h"

text \<open>
  \<open>NFTContractCreatedSignature\<close> is the package variable holding
  \<open>crypto.Keccak256Hash("NFTContractCreated(uint256,address,address,string,string,string)")\<close>.
  The functions below take it as their first argument, so everything proved holds for
  whatever 32 bytes the hash function returns.
\<close>

definition ProcessLog :: "hash \<Rightarrow> EventListener \<Rightarrow> Log \<Rightarrow> EventListener \<times> printed list" where
  "ProcessLog NFTContractCreatedSignature el lg =
     (if Address lg \<noteq> EventListener.factoryAddress el then (el, [])
      else if length (Topics lg) = 0 \<or> Topics lg ! 0 \<noteq> NFTContractCreatedSignature
        then (el, [])
      else if length (Topics lg) < 3 then (el, [InvalidNFTContractCreated])
      else (let contractAddress = BytesToAddress_Hash (Topics lg ! 1) in
            case AddNFTContract (contractFilter el) contractAddress of
              (cf, out) \<Rightarrow>
                (el\<lparr>contractFilter := cf\<rparr>, out @ [DiscoveredNFTContract contractAddress])))"

text \<open>
  The loop of \<open>ProcessLogs\<close>, carrying the listener and \<open>discoveredCount\<close>; the lines
  printed by the calls of \<open>ProcessLog\<close> are returned in order. A Go \<open>int\<close> cannot
  overflow here: the count is at most the length of the slice.
\<close>

fun ProcessLogs_loop ::
  "hash \<Rightarrow> EventListener \<Rightarrow> nat \<Rightarrow> Log list \<Rightarrow> EventListener \<times> printed list \<times> nat" where
  "ProcessLogs_loop NFTContractCreatedSignature el discoveredCount [] = (el, [], discoveredCount)"
| "ProcessLogs_loop NFTContractCreatedSignature el discoveredCount (lg # logs) =
     (case ProcessLog NFTContractCreatedSignature el lg of
        (el', out) \<Rightarrow>
          (case ProcessLogs_loop NFTContractCreatedSignature el'
                  (if length (Topics lg) > 0 \<and> Topics lg ! 0 = NFTContractCreatedSignature
                   then discoveredCount + 1 else discoveredCount) logs of
             (el'', out', n) \<Rightarrow> (el'', out @ out', n)))"

definition ProcessLogs :: "hash \<Rightarrow> EventListener \<Rightarrow> Log list \<Rightarrow> EventListener \<times> printed list \<times> nat" where
  "ProcessLogs NFTContractCreatedSignature el logs =
     ProcessLogs_loop NFTContractCreatedSignature el 0 logs"

definition BackfillNFTContracts ::
  "hash \<Rightarrow> EventListener \<Rightarrow> Log list \<Rightarrow> EventListener \<times> printed list \<times> error option" where
  "BackfillNFTContracts NFTContractCreatedSignature el logs =
     (case ProcessLogs NFTContractCreatedSignature el logs of
        (el', out, discoveredCount) \<Rightarrow>
          (el', [BackfillStart (length logs)] @ out @ [BackfillComplete discoveredCount], None))"

text \<open>
  \<open>NFTContractCreatedEvent\<close>; \<open>CollectionID\<close> is a \<open>*big.Int\<close>, which the parser leaves
  \<open>nil\<close>, and the three strings are left empty.
\<close>

record NFTContractCreatedEvent =
  CollectionID :: "int option"
  ContractAddress :: address
  Creator :: address
  Name :: string
  Symbol :: string
  BaseURI :: string
  BlockNumber :: "64 word"
  TxHash :: hash
  LogIndex :: "64 word"

definition ParseNFTContractCreatedEvent :: "hash \<Rightarrow> Log \<Rightarrow> error + NFTContractCreatedEvent" where
  "ParseNFTContractCreatedEvent NFTContractCreatedSignature lg =
     (if length (Topics lg) < 3
        then Inl (Errorf ''invalid NFTContractCreated event: not enough topics'' None)
      else if Topics lg ! 0 \<noteq> NFTContractCreatedSignature
        then Inl (Errorf ''not an NFTContractCreated event'' None)
      else Inr \<lparr>CollectionID = None,
                ContractAddress = BytesToAddress_Hash (Topics lg ! 1),
                Creator = BytesToAddress_Hash (Topics lg ! 2),
                Name = [], Symbol = [], BaseURI = [],
                BlockNumber = Log.BlockNumber lg,
                TxHash = Log.TxHash lg,
                LogIndex = Index lg\<rparr>)"

section \<open>RPC client\<close>

text \<open>
  \<open>ethereum.FilterQuery\<close>: the block range (\<open>*big.Int\<close>, possibly \<open>nil\<close>) and the
  address constraint; a \<open>nil\<close> or empty \<open>Addresses\<close> constrains nothing.
\<close>

record FilterQuery =
  FromBlock :: "int option"
  ToBlock :: "int option"
  Addresses :: "address list"

text \<open>
  The \<open>ethclient.Client\<close> is the far end of the connection: \<open>answer\<close> is what the
  node returns for a query, and \<open>sent\<close> records the queries issued so far.
\<close>

record Client =
  answer :: "FilterQuery \<Rightarrow> error + Log list"
  sent :: "FilterQuery list"

definition FilterLogs :: "Client \<Rightarrow> FilterQuery \<Rightarrow> (error + Log list) \<times> Client" where
  "FilterLogs c query = (answer c query, c\<lparr>sent := sent c @ [query]\<rparr>)"

record DopamintRPCClient =
  client :: Client
  addressFilter :: "address list"
  filterEnabled :: bool

definition GetFilteredLogs ::
  "DopamintRPCClient \<Rightarrow> int option \<Rightarrow> int option \<Rightarrow>
   (error + Log list) \<times> printed list \<times> DopamintRPCClient" where
  "GetFilteredLogs d fromBlock toBlock =
     (if \<not> filterEnabled d \<or> length (addressFilter d) = 0
      then (case FilterLogs (client d)
                   \<lparr>FromBlock = fromBlock, ToBlock = toBlock, Addresses = []\<rparr> of
              (r, c) \<Rightarrow> (r, [], d\<lparr>client := c\<rparr>))
      else (case FilterLogs (client d)
                   \<lparr>FromBlock = fromBlock, ToBlock = toBlock, Addresses = addressFilter d\<rparr> of
              (Inl err, c) \<Rightarrow>
                (Inl (Errorf ''failed to fetch filtered logs'' (Some err)), [], d\<lparr>client := c\<rparr>)
            | (Inr logs, c) \<Rightarrow>
                (Inr logs,
                 [FetchedLogs (length logs) (length (addressFilter d)) fromBlock toBlock],
                 d\<lparr>client := c\<rparr>)))"

definition UpdateAddressFilter ::
  "DopamintRPCClient \<Rightarrow> address list \<Rightarrow> DopamintRPCClient \<times> printed list" where
  "UpdateAddressFilter d addresses =
     (d\<lparr>addressFilter := addresses\<rparr>, [UpdatedAddressFilter (length addresses)])"

section \<open>Filter statistics\<close>

text \<open>
  A finite \<open>float64\<close> is modelled as the real number it denotes, and each operation of
  the source as the exact operation followed by \<open>float64_round\<close>, rounding to the
  nearest number with a 53-bit significand, ties to the even significand, as IEEE 754
  prescribes. The exponent is not bounded, which is exact as long as no intermediate
  value leaves the normal range, and none does here: the operands are \<open>int64\<close> counters
  (at most \<open>2^63\<close> in magnitude), a non-zero quotient of two of them is between
  \<open>2^-63\<close> and \<open>2^63\<close>, a non-zero difference from 1 is at least \<open>2^-53\<close>, and the
  product with 100 is below \<open>2^71\<close>. The guard on the total keeps the divisor non-zero,
  so no infinity and no NaN arises; the sign of a zero does not influence the result.
\<close>

definition round_even :: "real \<Rightarrow> int" where
  "round_even x =
     (let f = \<lfloor>x\<rfloor>; d = x - of_int f in
      if d < 1 / 2 then f
      else if d > 1 / 2 then f + 1
      else if even f then f else f + 1)"

definition float64_round :: "real \<Rightarrow> real" where
  "float64_round x =
     (if x = 0 then 0
      else (let ulp = 2 powr (of_int (\<lfloor>log 2 \<bar>x\<bar>\<rfloor> - 52)) in
            of_int (round_even (x / ulp)) * ulp))"

definition float64_of_int64 :: "64 word \<Rightarrow> real" where
  "float64_of_int64 w = float64_round (of_int (sint w))"

definition float64_div :: "real \<Rightarrow> real \<Rightarrow> real" where
  "float64_div x y = float64_round (x / y)"

definition float64_sub :: "real \<Rightarrow> real \<Rightarrow> real" where
  "float64_sub x y = float64_round (x - y)"

definition float64_mul :: "real \<Rightarrow> real \<Rightarrow> real" where
  "float64_mul x y = float64_round (x * y)"

record LogFilterStats =
  TotalLogsReceived :: "64 word"
  LogsAfterFilter :: "64 word"
  BlocksProcessed :: "64 word"
  ContractsWatched :: "64 word"
  FilterEnabled :: bool

definition CalculateFilterEfficiency :: "LogFilterStats \<Rightarrow> real" where
  "CalculateFilterEfficiency stats =
     (if TotalLogsReceived stats = 0 then 0
      else float64_mul
             (float64_sub 1
                (float64_div (float64_of_int64 (LogsAfterFilter stats))
                             (float64_of_int64 (TotalLogsReceived stats))))
             100)"

section \<open>Example values\<close>

text \<open>
  The Keccak-256 hash of the event's signature string, a filter with factory \<open>0xF1\<close>,
  payment \<open>0xF2\<close> and no NFT contract yet, and the listener that points to it.
\<close>

abbreviation Keccak_NFTContractCreated :: hash where
  "Keccak_NFTContractCreated \<equiv>
     0x67d1cd8e714f3ce1835cc3191f9ea9595c4642e2137a7f18e604a6b82d59ad41"

abbreviation filter0 :: ContractFilter where
  "filter0 \<equiv>
     \<lparr>ContractFilter.factoryAddress = 0xF1, paymentAddress = 0xF2, nftContracts = Map.empty,
      enabled = True, autoDiscovery = True, mongodbSyncEnabled = False,
      mongodbSyncInterval = 0\<rparr>"

abbreviation listener0 :: EventListener where
  "listener0 \<equiv> \<lparr>contractFilter = filter0, factoryAddress = 0xF1\<rparr>"

abbreviation log_of :: "address \<Rightarrow> hash list \<Rightarrow> Log" where
  "log_of a ts \<equiv>
     \<lparr>Address = a, Topics = ts, Log.BlockNumber = 100, Log.TxHash = 0xABCD, Index = 0\<rparr>"

text \<open>
  A node that holds two logs, one from an address that is not watched and one from the
  factory, and answers a query with those that its address constraint admits; an RPC
  client connected to it with the filter enabled and the two fixed addresses as list.
\<close>

abbreviation node0 :: "FilterQuery \<Rightarrow> error + Log list" where
  "node0 \<equiv> \<lambda>q. Inr (filter (\<lambda>l. Addresses q = [] \<or> Address l \<in> set (Addresses q))
                      [log_of 0xC0FFEE [], log_of 0xF1 [Keccak_NFTContractCreated, 0xAAA, 0xBBB]])"

abbreviation rpc0 :: DopamintRPCClient where
  "rpc0 \<equiv> \<lparr>client = \<lparr>answer = node0, sent = []\<rparr>, addressFilter = [0xF1, 0xF2],
            filterEnabled = True\<rparr>"

text \<open>
  A configuration as decoded from a document without a factory address and with a
  payment address that is no hexadecimal string.
\<close>

abbreviation config_missing :: ContractConfig where
  "config_missing \<equiv>
     \<lparr>Contracts_Factory_Address = [], Contracts_Payment_Address = ''not-an-address'',
      Contracts_NFTContracts = [], EventFilters_Enabled = True,
      SyncSettings_MongoDBSync_Enabled = False, SyncSettings_MongoDBSync_IntervalSeconds = 300,
      SyncSettings_AutoDiscovery_Enabled = True\<rparr>"

section \<open>Registry membership and insertion\<close>

lemma nft_lookup_iff: "nft_lookup m a \<longleftrightarrow> m a = Some True"
  by (simp add: nft_lookup_def split: option.splits)

text \<open>
  C4. With filtering disabled \<open>ShouldIndexLog\<close> is true of every address, inserted or
  not; with filtering enabled it is true exactly of the factory address, the payment
  address and the addresses that the map holds with value \<open>true\<close>. This holds in every
  state of the filter, reachable or not.
\<close>

theorem ShouldIndexLog_membership:
  "(\<not> enabled cf \<longrightarrow> ShouldIndexLog cf a) \<and>
   (enabled cf \<longrightarrow>
      (ShouldIndexLog cf a \<longleftrightarrow>
         a = ContractFilter.factoryAddress cf \<or> a = paymentAddress cf \<or>
         nftContracts cf a = Some True))"
  by (simp add: ShouldIndexLog_def nft_lookup_iff)

theorem ShouldIndexLog_membership_witness:
  "ShouldIndexLog (filter0\<lparr>enabled := False\<rparr>) 0xDEAD \<and>
   ShouldIndexLog filter0 0xF1 \<and> ShouldIndexLog filter0 0xF2 \<and>
   ShouldIndexLog (filter0\<lparr>nftContracts := [0xAAA \<mapsto> True]\<rparr>) 0xAAA \<and>
   ShouldIndexLog filter0 0xDEAD = False"
  using ShouldIndexLog_membership [of "filter0\<lparr>enabled := False\<rparr>" "0xDEAD"]
    ShouldIndexLog_membership [of filter0 "0xF1"]
    ShouldIndexLog_membership [of filter0 "0xF2"]
    ShouldIndexLog_membership [of "filter0\<lparr>nftContracts := [0xAAA \<mapsto> True]\<rparr>" "0xAAA"]
    ShouldIndexLog_membership [of filter0 "0xDEAD"]
  by simp

text \<open>
  The loop of \<open>AddNFTContracts\<close> in closed form: every address of the batch ends with
  value \<open>true\<close>, the other keys are untouched, and \<open>newCount\<close> grows by the number of
  distinct addresses of the batch that the map did not hold with value \<open>true\<close>.
\<close>

lemma AddNFTContracts_loop_eq:
  "AddNFTContracts_loop m n addrs =
     ((\<lambda>a. if a \<in> set addrs then Some True else m a),
      n + card (set addrs - {a. m a = Some True}))"
proof (induction addrs arbitrary: m n)
  case Nil
  show ?case by simp
next
  case (Cons x xs)
  show ?case
  proof (cases "m x = Some True")
    case True
    have "set (x # xs) - {a. m a = Some True} = set xs - {a. m a = Some True}"
      using True by auto
    moreover have "(\<lambda>a. if a \<in> set (x # xs) then Some True else m a)
                 = (\<lambda>a. if a \<in> set xs then Some True else m a)"
      using True by auto
    ultimately show ?thesis
      using True by (simp add: Cons.IH nft_lookup_iff del: set_simps)
  next
    case False
    let ?m = "m(x \<mapsto> True)"
    have s: "set (x # xs) - {a. m a = Some True} = insert x (set xs - {a. ?m a = Some True})"
      using False by auto
    have "card (insert x (set xs - {a. ?m a = Some True}))
        = Suc (card (set xs - {a. ?m a = Some True}))"
      by (rule card_insert_disjoint) auto
    moreover have "(\<lambda>a. if a \<in> set (x # xs) then Some True else m a)
                 = (\<lambda>a. if a \<in> set xs then Some True else ?m a)"
      by auto
    ultimately show ?thesis
      using False s by (simp add: Cons.IH nft_lookup_iff del: set_simps)
  qed
qed

lemma AddNFTContracts_eq:
  "AddNFTContracts cf batch =
     (cf\<lparr>nftContracts := (\<lambda>a. if a \<in> set batch then Some True else nftContracts cf a)\<rparr>,
      if 0 < card (set batch - {a. nftContracts cf a = Some True})
      then [AddedNFTContracts (card (set batch - {a. nftContracts cf a = Some True}))
              (nft_len (\<lambda>a. if a \<in> set batch then Some True else nftContracts cf a))]
      else [])"
  by (simp add: AddNFTContracts_def AddNFTContracts_loop_eq)

lemma dom_after_batch:
  "dom (\<lambda>a. if a \<in> set batch then Some True else m a) = dom m \<union> set batch"
  by (auto simp: dom_def)

lemma nft_len_after_batch:
  "nft_len (\<lambda>a. if a \<in> set batch then Some True else m a)
     = nft_len m + card (set batch - dom m)"
proof -
  have "dom m \<union> set batch = dom m \<union> (set batch - dom m)" by auto
  moreover have "card (dom m \<union> (set batch - dom m)) = card (dom m) + card (set batch - dom m)"
    by (rule card_Un_disjoint) auto
  ultimately show ?thesis by (simp add: nft_len_def dom_after_batch)
qed

lemma AddNFTContracts_again:
  "AddNFTContracts (fst (AddNFTContracts cf batch)) batch = (fst (AddNFTContracts cf batch), [])"
proof -
  let ?M = "\<lambda>a. if a \<in> set batch then Some True else nftContracts cf a"
  let ?cf = "cf\<lparr>nftContracts := ?M\<rparr>"
  have f: "fst (AddNFTContracts cf batch) = ?cf"
    by (simp add: AddNFTContracts_eq)
  have e: "set batch - {a. nftContracts ?cf a = Some True} = {}"
    by auto
  have m: "(\<lambda>a. if a \<in> set batch then Some True else nftContracts ?cf a) = ?M"
    by (rule ext) simp
  have "AddNFTContracts ?cf batch = (?cf\<lparr>nftContracts := ?M\<rparr>, [])"
    unfolding AddNFTContracts_eq [of ?cf batch] e m by simp
  then show ?thesis by (simp add: f)
qed

text \<open>
  C6. Insertion is idempotent, in every state of the filter. A second \<open>AddNFTContract\<close>
  of the same address returns the filter unchanged and prints nothing, so that every
  membership test and the number of dynamic members are what they were after the first.
  \<open>AddNFTContracts\<close> sets every address of the batch, repeated or not, once: the
  number of keys grows by the number of distinct addresses of the batch that were no
  key, the count it prints is the number of distinct addresses that were not held
  with value \<open>true\<close>, and a second call with the same batch returns the filter
  unchanged and prints nothing, \<open>newCount\<close> being zero.
\<close>

theorem insertion_idempotent:
  "AddNFTContract (fst (AddNFTContract cf a)) a = (fst (AddNFTContract cf a), []) \<and>
   ShouldIndexLog (fst (AddNFTContract (fst (AddNFTContract cf a)) a)) b
     = ShouldIndexLog (fst (AddNFTContract cf a)) b \<and>
   nft_len (nftContracts (fst (AddNFTContract (fst (AddNFTContract cf a)) a)))
     = nft_len (nftContracts (fst (AddNFTContract cf a))) \<and>
   nftContracts (fst (AddNFTContracts cf batch))
     = (\<lambda>a. if a \<in> set batch then Some True else nftContracts cf a) \<and>
   nft_len (nftContracts (fst (AddNFTContracts cf batch)))
     = nft_len (nftContracts cf) + card (set batch - dom (nftContracts cf)) \<and>
   snd (AddNFTContracts cf batch)
     = (if 0 < card (set batch - {a. nftContracts cf a = Some True})
        then [AddedNFTContracts (card (set batch - {a. nftContracts cf a = Some True}))
                (nft_len (nftContracts (fst (AddNFTContracts cf batch))))]
        else []) \<and>
   AddNFTContracts (fst (AddNFTContracts cf batch)) batch = (fst (AddNFTContracts cf batch), [])"
proof -
  have once: "AddNFTContract (fst (AddNFTContract cf a)) a = (fst (AddNFTContract cf a), [])"
    by (simp add: AddNFTContract_def nft_lookup_iff Let_def)
  have m: "nftContracts (fst (AddNFTContracts cf batch))
     = (\<lambda>a. if a \<in> set batch then Some True else nftContracts cf a)"
    by (simp add: AddNFTContracts_eq)
  have l: "nft_len (nftContracts (fst (AddNFTContracts cf batch)))
     = nft_len (nftContracts cf) + card (set batch - dom (nftContracts cf))"
    by (simp only: m nft_len_after_batch)
  have p: "snd (AddNFTContracts cf batch)
     = (if 0 < card (set batch - {a. nftContracts cf a = Some True})
        then [AddedNFTContracts (card (set batch - {a. nftContracts cf a = Some True}))
                (nft_len (nftContracts (fst (AddNFTContracts cf batch))))]
        else [])"
    unfolding m by (simp only: AddNFTContracts_eq snd_conv)
  show ?thesis
    by (intro conjI once m l p AddNFTContracts_again) (simp_all only: once fst_conv)
qed

theorem insertion_idempotent_witness:
  "fst (AddNFTContract (fst (AddNFTContract filter0 0xA1)) 0xA1) = fst (AddNFTContract filter0 0xA1) \<and>
   nft_len (nftContracts (fst (AddNFTContracts filter0 [0xA1, 0xA2, 0xA1]))) = 2 \<and>
   snd (AddNFTContracts filter0 [0xA1, 0xA2, 0xA1]) = [AddedNFTContracts 2 2] \<and>
   snd (AddNFTContracts (fst (AddNFTContracts filter0 [0xA1, 0xA2, 0xA1])) [0xA1, 0xA2, 0xA1]) = []"
proof -
  let ?B = "[0xA1, 0xA2, 0xA1] :: address list"
  note t = insertion_idempotent [of filter0 "0xA1" 0 ?B]
  have c0: "card {0xA1, 0xA2 :: address} = 2" by simp
  have c1: "card (set ?B - {a. nftContracts filter0 a = Some True}) = 2"
    using c0 by (simp add: insert_commute)
  have c2: "card (set ?B - dom (nftContracts filter0)) = 2"
    using c0 by (simp add: insert_commute)
  have l0: "nft_len (nftContracts filter0) = 0" by (simp add: nft_len_def)
  from t have "AddNFTContract (fst (AddNFTContract filter0 0xA1)) 0xA1
                 = (fst (AddNFTContract filter0 0xA1), [])"
    by (elim conjE)
  then have w1: "fst (AddNFTContract (fst (AddNFTContract filter0 0xA1)) 0xA1)
                   = fst (AddNFTContract filter0 0xA1)"
    by (simp only: fst_conv)
  from t have "nft_len (nftContracts (fst (AddNFTContracts filter0 ?B)))
     = nft_len (nftContracts filter0) + card (set ?B - dom (nftContracts filter0))"
    by (elim conjE)
  then have w2: "nft_len (nftContracts (fst (AddNFTContracts filter0 ?B))) = 2"
    by (simp only: c2 l0 add_0)
  from t have "snd (AddNFTContracts filter0 ?B)
     = (if 0 < card (set ?B - {a. nftContracts filter0 a = Some True})
        then [AddedNFTContracts (card (set ?B - {a. nftContracts filter0 a = Some True}))
                (nft_len (nftContracts (fst (AddNFTContracts filter0 ?B))))]
        else [])"
    by (elim conjE)
  then have w3: "snd (AddNFTContracts filter0 ?B) = [AddedNFTContracts 2 2]"
    by (simp only: c1 w2) simp
  from t have "AddNFTContracts (fst (AddNFTContracts filter0 ?B)) ?B
                 = (fst (AddNFTContracts filter0 ?B), [])"
    by (elim conjE)
  then have w4: "snd (AddNFTContracts (fst (AddNFTContracts filter0 ?B)) ?B) = []"
    by (simp only: snd_conv)
  show ?thesis by (intro conjI w1 w2 w3 w4)
qed

section \<open>Non-factory emitters\<close>

text \<open>
  C7. A log whose emitting address is not the listener's factory address is a no-op of
  \<open>ProcessLog\<close>: the listener and the filter it points to are returned unchanged and
  nothing is printed, whatever the topics are. The emitter is tested before the
  signature: a log that carries the signature alone, which from the factory would print
  the "not enough topics" line, prints nothing from another emitter.
\<close>

theorem ProcessLog_other_emitter_noop:
  "Address lg \<noteq> EventListener.factoryAddress el \<Longrightarrow>
     ProcessLog NFTContractCreatedSignature el lg = (el, [])"
  by (simp add: ProcessLog_def)


theorem ProcessLog_other_emitter_noop_witness:
  "Address (log_of 0xBAD [Keccak_NFTContractCreated]) \<noteq> EventListener.factoryAddress listener0 \<and>
   ProcessLog Keccak_NFTContractCreated listener0 (log_of 0xBAD [Keccak_NFTContractCreated])
     = (listener0, [])"
  using ProcessLog_other_emitter_noop
    [of "log_of 0xBAD [Keccak_NFTContractCreated]" listener0 Keccak_NFTContractCreated]
  by simp

section \<open>The standalone parser\<close>

text \<open>
  C10. \<open>ParseNFTContractCreatedEvent\<close> never reads the emitting address: its result
  is the same whatever that address is, and for a log with at least three topics whose
  first topic is the signature it is the event with the contract address from the
  second topic, the creator from the third and the block number, transaction hash and
  log index of the log. The restriction to the factory is in \<open>ProcessLog\<close> alone,
  which leaves such a log from another emitter without effect.
\<close>

theorem ParseNFTContractCreatedEvent_any_emitter:
  "3 \<le> length (Topics lg) \<Longrightarrow> Topics lg ! 0 = NFTContractCreatedSignature \<Longrightarrow>
   ParseNFTContractCreatedEvent NFTContractCreatedSignature lg =
     Inr \<lparr>CollectionID = None,
          ContractAddress = BytesToAddress_Hash (Topics lg ! 1),
          Creator = BytesToAddress_Hash (Topics lg ! 2),
          Name = [], Symbol = [], BaseURI = [],
          BlockNumber = Log.BlockNumber lg, TxHash = Log.TxHash lg, LogIndex = Index lg\<rparr> \<and>
   ParseNFTContractCreatedEvent NFTContractCreatedSignature (lg\<lparr>Address := emitter\<rparr>) =
     ParseNFTContractCreatedEvent NFTContractCreatedSignature lg \<and>
   (Address lg \<noteq> EventListener.factoryAddress el \<longrightarrow>
      ProcessLog NFTContractCreatedSignature el lg = (el, []))"
  by (simp add: ParseNFTContractCreatedEvent_def ProcessLog_def)

theorem ParseNFTContractCreatedEvent_any_emitter_witness:
  "ParseNFTContractCreatedEvent Keccak_NFTContractCreated
     (log_of 0xBAD [Keccak_NFTContractCreated, 0xAAA, 0xBBB]) =
     Inr \<lparr>CollectionID = None, ContractAddress = 0xAAA, Creator = 0xBBB,
          Name = [], Symbol = [], BaseURI = [],
          BlockNumber = 100, TxHash = 0xABCD, LogIndex = 0\<rparr> \<and>
   ParseNFTContractCreatedEvent Keccak_NFTContractCreated
     (log_of 0xF1 [Keccak_NFTContractCreated, 0xAAA, 0xBBB]) =
     ParseNFTContractCreatedEvent Keccak_NFTContractCreated
       (log_of 0xBAD [Keccak_NFTContractCreated, 0xAAA, 0xBBB]) \<and>
   ProcessLog Keccak_NFTContractCreated listener0
     (log_of 0xBAD [Keccak_NFTContractCreated, 0xAAA, 0xBBB]) = (listener0, [])"
  using ParseNFTContractCreatedEvent_any_emitter
    [of "log_of 0xBAD [Keccak_NFTContractCreated, 0xAAA, 0xBBB]" Keccak_NFTContractCreated
        "0xF1" listener0]
  by (simp add: BytesToAddress_Hash_def)

section \<open>The count returned by ProcessLogs\<close>

text \<open>
  What \<open>ProcessLogs\<close> counts: the logs that have a first topic equal to the signature,
  whatever their emitter and however many topics they carry.
\<close>

lemma ProcessLogs_loop_count:
  "snd (snd (ProcessLogs_loop s el n logs)) =
     n + length (filter (\<lambda>lg. length (Topics lg) > 0 \<and> Topics lg ! 0 = s) logs)"
  by (induction logs arbitrary: el n) (simp_all add: case_prod_beta)

lemma ProcessLogs_count:
  "snd (snd (ProcessLogs s el logs)) =
     length (filter (\<lambda>lg. length (Topics lg) > 0 \<and> Topics lg ! 0 = s) logs)"
  by (simp add: ProcessLogs_def ProcessLogs_loop_count)

text \<open>
  C1. The claim is that a log is counted only when it passes the whole applicability
  test. On a batch of two logs that both carry the signature, the first from an emitter
  that is not the factory and the second from the factory with one topic only,
  \<open>ProcessLog\<close> skips the first and rejects the second, the listener and its filter
  are returned as they were, no address has been inserted, and \<open>ProcessLogs\<close> returns
  2; \<open>BackfillNFTContracts\<close> prints that count as the number of discovered contracts
  and returns the \<open>nil\<close> error.
\<close>

theorem ProcessLogs_counts_skipped_logs:
  "ProcessLogs Keccak_NFTContractCreated listener0
     [log_of 0xBAD [Keccak_NFTContractCreated, 0xAAA, 0xBBB],
      log_of 0xF1 [Keccak_NFTContractCreated]]
     = (listener0, [InvalidNFTContractCreated], 2) \<and>
   BackfillNFTContracts Keccak_NFTContractCreated listener0
     [log_of 0xBAD [Keccak_NFTContractCreated, 0xAAA, 0xBBB],
      log_of 0xF1 [Keccak_NFTContractCreated]]
     = (listener0, [BackfillStart 2, InvalidNFTContractCreated, BackfillComplete 2], None)"
  by (simp add: BackfillNFTContracts_def ProcessLogs_def ProcessLog_def)

section \<open>Malformed events\<close>

text \<open>
  C2, as stated, fails: a log that carries the signature alone and comes from an
  emitter other than the factory is dropped by \<open>ProcessLog\<close> without a trace, and the
  same log from the factory leaves one printed line and nothing else.
\<close>

theorem ProcessLog_malformed_counterexample:
  "ProcessLog Keccak_NFTContractCreated listener0 (log_of 0xBAD [Keccak_NFTContractCreated])
     = (listener0, []) \<and>
   ProcessLog Keccak_NFTContractCreated listener0 (log_of 0xF1 [Keccak_NFTContractCreated])
     = (listener0, [InvalidNFTContractCreated])"
  by (simp add: ProcessLog_def)

text \<open>
  C2, amended. For a log whose first topic is the signature and which has fewer than
  three topics, \<open>ProcessLog\<close> inserts nothing: it returns the listener and its filter
  unchanged. When the emitter is the factory it prints the "not enough topics" line,
  and otherwise nothing; this line is all there is, \<open>ProcessLog\<close> returns no error and
  keeps no error count. The standalone parser rejects such a log with the "not enough
  topics" error.
\<close>

theorem ProcessLog_malformed_event:
  "Topics lg \<noteq> [] \<Longrightarrow> Topics lg ! 0 = NFTContractCreatedSignature \<Longrightarrow>
   length (Topics lg) < 3 \<Longrightarrow>
   ProcessLog NFTContractCreatedSignature el lg =
     (el, if Address lg = EventListener.factoryAddress el
          then [InvalidNFTContractCreated] else []) \<and>
   ParseNFTContractCreatedEvent NFTContractCreatedSignature lg =
     Inl (Errorf ''invalid NFTContractCreated event: not enough topics'' None)"
  by (simp add: ProcessLog_def ParseNFTContractCreatedEvent_def)

theorem ProcessLog_malformed_event_witness:
  "Topics (log_of 0xF1 [Keccak_NFTContractCreated, 0xAAA]) \<noteq> [] \<and>
   length (Topics (log_of 0xF1 [Keccak_NFTContractCreated, 0xAAA])) < 3 \<and>
   ProcessLog Keccak_NFTContractCreated listener0
     (log_of 0xF1 [Keccak_NFTContractCreated, 0xAAA]) = (listener0, [InvalidNFTContractCreated]) \<and>
   ParseNFTContractCreatedEvent Keccak_NFTContractCreated
     (log_of 0xF1 [Keccak_NFTContractCreated, 0xAAA]) =
     Inl (Errorf ''invalid NFTContractCreated event: not enough topics'' None)"
  using ProcessLog_malformed_event
    [of "log_of 0xF1 [Keccak_NFTContractCreated, 0xAAA]" Keccak_NFTContractCreated listener0]
  by simp

section \<open>The watched-address snapshot and the query list\<close>

text \<open>
  The lower-cased \<open>Hex\<close> of an address is \<open>0x\<close> and its 40 lower-case digits,
  whatever the hash function capitalises, and determines the address.
\<close>

lemma fifteen_mask: "(0x0f :: 'a::len word) = mask 4"
  by (simp add: mask_eq_exp_minus_1)

lemma unat_byte_lt: "unat (v :: 8 word) < 256"
  using unsigned_less [of v] by simp

lemma hi_nibble_lt: "unat (drop_bit 4 (v :: 8 word)) < 16"
proof -
  have "unat v div 16 < 16" using unat_byte_lt [of v] by simp
  moreover have "unat (drop_bit 4 v) = drop_bit 4 (unat v)" by (rule unat_drop_bit_eq)
  moreover have "drop_bit 4 (unat v) = unat v div 16" by (simp only: drop_bit_eq_div) simp
  ultimately show ?thesis by (simp only:)
qed

lemma lo_nibble_lt: "unat ((v :: 8 word) AND 0x0f) < 16"
proof -
  have "unat (take_bit 4 v) = take_bit 4 (unat v)"
    by (rule unsigned_take_bit_eq)
  also have "\<dots> = unat v mod 16" by (simp only: take_bit_eq_mod) simp
  finally have "unat (take_bit 4 v) < 16" by simp
  then show ?thesis by (simp only: fifteen_mask take_bit_eq_mask)
qed

lemma byte_from_nibbles:
  assumes "drop_bit 4 (v :: 8 word) = drop_bit 4 w" and "v AND 0x0f = w AND 0x0f"
  shows "v = w"
proof (rule bit_eqI)
  fix n
  show "bit v n \<longleftrightarrow> bit w n"
  proof (cases "n < 4")
    case True
    have "bit (v AND mask 4) n = bit (w AND mask 4) n"
      using assms(2) by (simp only: fifteen_mask)
    then show ?thesis using True by (simp add: bit_and_iff bit_mask_iff)
  next
    case False
    have "bit (drop_bit 4 v) (n - 4) = bit (drop_bit 4 w) (n - 4)"
      using assms(1) by (simp only:)
    then show ?thesis using False by (simp add: bit_drop_bit_eq)
  qed
qed

lemma hextable_nth_inj:
  "i < 16 \<Longrightarrow> j < 16 \<Longrightarrow> hextable ! i = hextable ! j \<Longrightarrow> i = j"
proof -
  have d: "distinct hextable" by (simp add: hextable_def)
  have l: "length hextable = 16" by (simp add: hextable_def)
  show "i < 16 \<Longrightarrow> j < 16 \<Longrightarrow> hextable ! i = hextable ! j \<Longrightarrow> i = j"
    using d l by (simp add: nth_eq_iff_index_eq)
qed

lemma hex_Encode_inj: "hex_Encode xs = hex_Encode ys \<Longrightarrow> xs = ys"
proof (induction xs arbitrary: ys)
  case Nil
  then show ?case by (cases ys) simp_all
next
  case (Cons x xs)
  then obtain y ys' where ys: "ys = y # ys'" by (cases ys) simp_all
  from Cons.prems ys have
    h: "hextable ! unat (drop_bit 4 x) = hextable ! unat (drop_bit 4 y)" and
    l: "hextable ! unat (x AND 0x0f) = hextable ! unat (y AND 0x0f)" and
    r: "hex_Encode xs = hex_Encode ys'"
    by simp_all
  have "unat (drop_bit 4 x) = unat (drop_bit 4 y)"
    using h by (rule hextable_nth_inj [OF hi_nibble_lt hi_nibble_lt])
  then have hi: "drop_bit 4 x = drop_bit 4 y" by (rule unsigned_word_eqI)
  have "unat (x AND 0x0f) = unat (y AND 0x0f)"
    using l by (rule hextable_nth_inj [OF lo_nibble_lt lo_nibble_lt])
  then have lo: "x AND 0x0f = y AND 0x0f" by (rule unsigned_word_eqI)
  have "x = y" using hi lo by (rule byte_from_nibbles)
  with r Cons.IH ys show ?case by simp
qed

lemma Address_Bytes_nth:
  "i < 20 \<Longrightarrow> Address_Bytes a ! i = ucast (drop_bit (8 * (19 - i)) a)"
  unfolding Address_Bytes_def by (subst nth_map) simp_all

lemma Address_Bytes_inj:
  assumes "Address_Bytes a = Address_Bytes b"
  shows "a = b"
proof (rule bit_eqI)
  fix n
  assume "possible_bit TYPE(address) n"
  then have n: "n < 160" by (simp add: possible_bit_def)
  define i where "i = 19 - n div 8"
  have i: "i < 20" by (simp add: i_def)
  have ni: "8 * (19 - i) + n mod 8 = n" and m: "n mod 8 < 8"
    using n by (simp_all add: i_def)
  have "Address_Bytes a ! i = Address_Bytes b ! i" using assms by (simp only:)
  then have "(ucast (drop_bit (8 * (19 - i)) a) :: 8 word) = ucast (drop_bit (8 * (19 - i)) b)"
    using i by (simp only: Address_Bytes_nth)
  then have "bit (ucast (drop_bit (8 * (19 - i)) a) :: 8 word) (n mod 8)
           = bit (ucast (drop_bit (8 * (19 - i)) b) :: 8 word) (n mod 8)"
    by (simp only:)
  then have "bit a (8 * (19 - i) + n mod 8) = bit b (8 * (19 - i) + n mod 8)"
    using m by (simp add: bit_ucast_iff bit_drop_bit_eq add.commute)
  then show "bit a n \<longleftrightarrow> bit b n"
    by (simp only: ni)
qed

lemma Address_hex_inj: "Address_hex a = Address_hex b \<Longrightarrow> a = b"
  by (simp add: Address_hex_def hex_Encode_inj Address_Bytes_inj)

lemma length_hex_Encode: "length (hex_Encode xs) = 2 * length xs"
  by (induction xs) simp_all

lemma length_Address_hex: "length (Address_hex a) = 42"
  by (simp add: Address_hex_def length_hex_Encode Address_Bytes_def)

lemma hextable_nth_mem: "i < 16 \<Longrightarrow> hextable ! i \<in> set hextable"
  by (rule nth_mem) (simp add: hextable_def)

lemma set_hex_Encode: "set (hex_Encode xs) \<subseteq> set hextable"
  by (induction xs) (simp_all add: hextable_nth_mem hi_nibble_lt lo_nibble_lt)

lemma lower_of_checksummed:
  assumes "c \<in> set hextable"
  shows "(let d = (if (of_char c :: nat) > 57 \<and> b then char_of ((of_char c :: nat) - 32) else c)
          in if 65 \<le> (of_char d :: nat) \<and> (of_char d :: nat) \<le> 90
             then char_of ((of_char d :: nat) + 32) else d) = c"
  using assms unfolding hextable_def Let_def by (cases b) (auto simp: char_of_eq_iff)

lemma map_nth_from: "map ((!) xs) [n..<length xs] = drop n xs"
proof -
  have "drop n xs = drop n (map ((!) xs) [0..<length xs])" by (simp only: map_nth)
  also have "\<dots> = map ((!) xs) [n..<length xs]" by (simp only: drop_map drop_upt) simp
  finally show ?thesis by simp
qed

lemma Address_hex_nth_mem:
  assumes "2 \<le> i" and "i < 42"
  shows "Address_hex a ! i \<in> set hextable"
proof -
  have "drop 2 (Address_hex a) ! (i - 2) = Address_hex a ! (2 + (i - 2))"
    by (rule nth_drop) (simp add: length_Address_hex)
  then have "Address_hex a ! i = hex_Encode (Address_Bytes a) ! (i - 2)"
    using assms by (simp add: Address_hex_def numeral_2_eq_2)
  moreover have "i - 2 < length (hex_Encode (Address_Bytes a))"
    using assms by (simp add: length_hex_Encode Address_Bytes_def)
  ultimately show ?thesis
    using set_hex_Encode [of "Address_Bytes a"] nth_mem by fastforce
qed

lemma ToLower_Hex: "ToLower (Hex Keccak256 a) = Address_hex a"
proof -
  let ?buf = "Address_hex a"
  let ?low = "\<lambda>c. if 65 \<le> (of_char c :: nat) \<and> (of_char c :: nat) \<le> 90
               then char_of ((of_char c :: nat) + 32) else c"
  have t: "take 2 ?buf = ''0x''" by (simp add: Address_hex_def)
  have "ToLower (Hex Keccak256 a) = map ?low (take 2 ?buf) @
          map (\<lambda>i. ?low (let hashByte = Hash_Bytes (Keccak256 (drop 2 ?buf)) ! ((i - 2) div 2);
                       hashByte = (if i mod 2 = 0 then drop_bit 4 hashByte else hashByte AND 0x0f)
                   in if (of_char (?buf ! i) :: nat) > 57 \<and> hashByte > 7
                      then char_of ((of_char (?buf ! i) :: nat) - 32)
                      else ?buf ! i)) [2..<length ?buf]"
    by (simp add: ToLower_def Hex_def checksumHex_def Let_def comp_def)
  also have "\<dots> = ''0x'' @ map ((!) ?buf) [2..<length ?buf]"
  proof -
    have "map ?low (take 2 ?buf) = ''0x''" by (simp add: t)
    moreover have "map (\<lambda>i. ?low (let hashByte = Hash_Bytes (Keccak256 (drop 2 ?buf)) ! ((i - 2) div 2);
                       hashByte = (if i mod 2 = 0 then drop_bit 4 hashByte else hashByte AND 0x0f)
                   in if (of_char (?buf ! i) :: nat) > 57 \<and> hashByte > 7
                      then char_of ((of_char (?buf ! i) :: nat) - 32)
                      else ?buf ! i)) [2..<length ?buf] = map ((!) ?buf) [2..<length ?buf]"
    proof (rule map_cong [OF refl])
      fix i assume "i \<in> set [2..<length ?buf]"
      then have "2 \<le> i \<and> i < 42"
        by (simp only: set_upt atLeastLessThan_iff length_Address_hex)
      then have "?buf ! i \<in> set hextable"
        by (simp only: Address_hex_nth_mem)
      from lower_of_checksummed [OF this]
      show "?low (let hashByte = Hash_Bytes (Keccak256 (drop 2 ?buf)) ! ((i - 2) div 2);
                       hashByte = (if i mod 2 = 0 then drop_bit 4 hashByte else hashByte AND 0x0f)
                   in if (of_char (?buf ! i) :: nat) > 57 \<and> hashByte > 7
                      then char_of ((of_char (?buf ! i) :: nat) - 32)
                      else ?buf ! i) = ?buf ! i"
        unfolding Let_def by simp
    qed
    ultimately show ?thesis by (simp only:)
  qed
  also have "\<dots> = take 2 ?buf @ drop 2 ?buf" by (simp only: map_nth_from t)
  finally show ?thesis by simp
qed

lemma canonical_inj: "ToLower (Hex Keccak256 a) = ToLower (Hex Keccak256 b) \<Longrightarrow> a = b"
  by (simp only: ToLower_Hex) (rule Address_hex_inj)

lemma distinct_canonical:
  "distinct (map (\<lambda>addr. ToLower (Hex Keccak256 addr)) addresses) = distinct addresses"
  by (rule distinct_map [THEN trans])
     (auto simp: inj_on_def dest: canonical_inj)

text \<open>
  C5, as stated, fails: after the factory address itself has been added as an NFT
  contract, the snapshot holds it twice.
\<close>

theorem GetWatchedAddresses_duplicates_counterexample:
  "GetWatchedAddresses (fst (AddNFTContract filter0 0xF1)) [0xF1, 0xF2, 0xF1] \<and>
   \<not> distinct [0xF1, 0xF2, 0xF1 :: address]"
proof -
  have "GetWatchedAddresses (filter0\<lparr>nftContracts := [0xF1 \<mapsto> True]\<rparr>)
          (ContractFilter.factoryAddress (filter0\<lparr>nftContracts := [0xF1 \<mapsto> True]\<rparr>) #
           paymentAddress (filter0\<lparr>nftContracts := [0xF1 \<mapsto> True]\<rparr>) # [0xF1])"
    by (rule GetWatchedAddresses.intros) simp_all
  then show ?thesis
    by (simp add: AddNFTContract_def nft_lookup_def Let_def)
qed

text \<open>
  C5, amended. In every state of the filter, so after every sequence of
  \<open>AddNFTContract\<close> and \<open>AddNFTContracts\<close>, a snapshot is the factory address, the
  payment address and then every key of the map exactly once. It has no duplicate
  exactly when the two fixed addresses differ and neither is a key of the map: a fixed
  address that has been added as an NFT contract is listed twice. The query list is the
  snapshot rendered entry by entry, and since the rendering is one-to-one on the 20-byte
  addresses, the query list has a duplicate exactly when the snapshot has one; no two
  strings that differ in case only can arise.
\<close>

theorem GetWatchedAddresses_duplicates:
  "GetWatchedAddresses cf addresses \<Longrightarrow>
     take 2 addresses = [ContractFilter.factoryAddress cf, paymentAddress cf] \<and>
     distinct (drop 2 addresses) \<and>
     set (drop 2 addresses) = dom (nftContracts cf) \<and>
     (distinct addresses \<longleftrightarrow>
        ContractFilter.factoryAddress cf \<noteq> paymentAddress cf \<and>
        ContractFilter.factoryAddress cf \<notin> dom (nftContracts cf) \<and>
        paymentAddress cf \<notin> dom (nftContracts cf)) \<and>
     GetAddressFilter Keccak256 cf (map (\<lambda>addr. ToLower (Hex Keccak256 addr)) addresses) \<and>
     (distinct (map (\<lambda>addr. ToLower (Hex Keccak256 addr)) addresses) \<longleftrightarrow> distinct addresses)"
proof (induction rule: GetWatchedAddresses.induct)
  case (1 keys cf)
  have g: "GetWatchedAddresses cf (ContractFilter.factoryAddress cf # paymentAddress cf # keys)"
    using 1 by (rule GetWatchedAddresses.intros)
  have "GetAddressFilter Keccak256 cf
          (map (\<lambda>addr. ToLower (Hex Keccak256 addr))
             (ContractFilter.factoryAddress cf # paymentAddress cf # keys))"
    using g by (rule GetAddressFilter.intros)
  moreover have "distinct (map (\<lambda>addr. ToLower (Hex Keccak256 addr))
             (ContractFilter.factoryAddress cf # paymentAddress cf # keys))
       = distinct (ContractFilter.factoryAddress cf # paymentAddress cf # keys)"
    by (rule distinct_canonical)
  moreover have "distinct (ContractFilter.factoryAddress cf # paymentAddress cf # keys) \<longleftrightarrow>
        ContractFilter.factoryAddress cf \<noteq> paymentAddress cf \<and>
        ContractFilter.factoryAddress cf \<notin> dom (nftContracts cf) \<and>
        paymentAddress cf \<notin> dom (nftContracts cf)"
    using 1 by auto
  ultimately show ?case using 1 by simp
qed

theorem GetWatchedAddresses_duplicates_witness:
  "GetWatchedAddresses (fst (AddNFTContracts filter0 [0xA1, 0xA2, 0xA1])) [0xF1, 0xF2, 0xA2, 0xA1] \<and>
   distinct [0xF1, 0xF2, 0xA2, 0xA1 :: address] \<and>
   GetAddressFilter (\<lambda>s. 0) (fst (AddNFTContracts filter0 [0xA1, 0xA2, 0xA1]))
     (map (\<lambda>addr. ToLower (Hex (\<lambda>s. 0) addr)) [0xF1, 0xF2, 0xA2, 0xA1]) \<and>
   distinct (map (\<lambda>addr. ToLower (Hex (\<lambda>s. 0) addr)) [0xF1, 0xF2, 0xA2, 0xA1 :: address])"
proof -
  let ?cf = "filter0\<lparr>nftContracts :=
               (\<lambda>a. if a \<in> set [0xA1, 0xA2, 0xA1] then Some True else nftContracts filter0 a)\<rparr>"
  have f: "fst (AddNFTContracts filter0 [0xA1, 0xA2, 0xA1]) = ?cf"
    by (simp only: AddNFTContracts_eq fst_conv)
  have "GetWatchedAddresses ?cf (ContractFilter.factoryAddress ?cf # paymentAddress ?cf # [0xA2, 0xA1])"
    by (rule GetWatchedAddresses.intros) (auto simp: dom_def)
  then have g: "GetWatchedAddresses (fst (AddNFTContracts filter0 [0xA1, 0xA2, 0xA1]))
              [0xF1, 0xF2, 0xA2, 0xA1]"
    by (simp add: f)
  have d: "distinct [0xF1, 0xF2, 0xA2, 0xA1 :: address]" by simp
  from GetWatchedAddresses_duplicates [OF g, of "\<lambda>s. 0"] d g show ?thesis
    by (simp only: simp_thms)
qed

section \<open>Filtered retrieval\<close>

text \<open>
  C8. \<open>GetFilteredLogs\<close> issues exactly one retrieval, over the block range it was
  given. The query carries the cached address list exactly when filtering is enabled
  and the list is not empty; otherwise it carries no address constraint, and the result
  is whatever the node answers to that unconstrained query, not an empty result. With
  the constraint, the node's logs are returned as they are and its error is wrapped.
\<close>

theorem GetFilteredLogs_retrieval:
  "sent (client (snd (snd (GetFilteredLogs d fromBlock toBlock)))) =
     sent (client d) @
       [\<lparr>FromBlock = fromBlock, ToBlock = toBlock,
         Addresses = (if filterEnabled d \<and> addressFilter d \<noteq> [] then addressFilter d else [])\<rparr>] \<and>
   fst (GetFilteredLogs d fromBlock toBlock) =
     (if filterEnabled d \<and> addressFilter d \<noteq> []
      then (case answer (client d)
                   \<lparr>FromBlock = fromBlock, ToBlock = toBlock, Addresses = addressFilter d\<rparr> of
              Inl err \<Rightarrow> Inl (Errorf ''failed to fetch filtered logs'' (Some err))
            | Inr logs \<Rightarrow> Inr logs)
      else answer (client d) \<lparr>FromBlock = fromBlock, ToBlock = toBlock, Addresses = []\<rparr>)"
  by (simp add: GetFilteredLogs_def FilterLogs_def split: sum.splits)

theorem GetFilteredLogs_retrieval_witness:
  "sent (client (snd (snd (GetFilteredLogs rpc0 (Some 100) (Some 200))))) =
     [\<lparr>FromBlock = Some 100, ToBlock = Some 200, Addresses = [0xF1, 0xF2]\<rparr>] \<and>
   fst (GetFilteredLogs rpc0 (Some 100) (Some 200)) =
     Inr [log_of 0xF1 [Keccak_NFTContractCreated, 0xAAA, 0xBBB]] \<and>
   sent (client (snd (snd (GetFilteredLogs (fst (UpdateAddressFilter rpc0 [])) (Some 100) (Some 200))))) =
     [\<lparr>FromBlock = Some 100, ToBlock = Some 200, Addresses = []\<rparr>] \<and>
   fst (GetFilteredLogs (fst (UpdateAddressFilter rpc0 [])) (Some 100) (Some 200)) =
     Inr [log_of 0xC0FFEE [], log_of 0xF1 [Keccak_NFTContractCreated, 0xAAA, 0xBBB]] \<and>
   sent (client (snd (snd (GetFilteredLogs (rpc0\<lparr>filterEnabled := False\<rparr>) (Some 100) (Some 200))))) =
     [\<lparr>FromBlock = Some 100, ToBlock = Some 200, Addresses = []\<rparr>]"
  using GetFilteredLogs_retrieval [of rpc0 "Some 100" "Some 200"]
    GetFilteredLogs_retrieval [of "fst (UpdateAddressFilter rpc0 [])" "Some 100" "Some 200"]
    GetFilteredLogs_retrieval [of "rpc0\<lparr>filterEnabled := False\<rparr>" "Some 100" "Some 200"]
  by (simp add: UpdateAddressFilter_def)


section \<open>Construction of the filter\<close>

lemma HexToAddress_empty: "HexToAddress [] = 0"
  by (simp add: HexToAddress_def FromHex_def has0xPrefix_def Hex2Bytes_def BytesToAddress_def word_rcat_def)

text \<open>
  C3, as stated, fails: from a configuration without a factory address and with a
  payment address that is no hexadecimal string, \<open>NewContractFilter\<close> returns a
  filter, with the zero address in both fixed roles.
\<close>

theorem NewContractFilter_missing_address_counterexample:
  "NewContractFilter (\<lambda>path. Inr []) (\<lambda>data. Inr config_missing) ''contracts.json'' =
     Inr \<lparr>ContractFilter.factoryAddress = 0, paymentAddress = 0, nftContracts = Map.empty,
          enabled = True, autoDiscovery = True, mongodbSyncEnabled = False,
          mongodbSyncInterval = 300000000000\<rparr>"
  by (simp add: NewContractFilter_def HexToAddress_def FromHex_def has0xPrefix_def Hex2Bytes_def
      BytesToAddress_def word_rcat_def fromHexChar_def)

text \<open>
  C3, amended. \<open>NewContractFilter\<close> returns an error when the file cannot be read and
  when its content cannot be decoded, and in no other case: from every decoded
  configuration it returns a filter whose fixed addresses are \<open>HexToAddress\<close> of the
  configured strings, with no validation. \<open>HexToAddress\<close> never fails; for a missing
  address, which is decoded as the empty string, it gives the zero address.
\<close>

theorem NewContractFilter_fails_iff:
  "(ReadFile configPath = Inl err \<longrightarrow>
      NewContractFilter ReadFile Unmarshal configPath =
        Inl (Errorf ''failed to read config file'' (Some err))) \<and>
   (ReadFile configPath = Inr data \<and> Unmarshal data = Inl err \<longrightarrow>
      NewContractFilter ReadFile Unmarshal configPath =
        Inl (Errorf ''failed to parse config'' (Some err))) \<and>
   (ReadFile configPath = Inr data \<and> Unmarshal data = Inr config \<longrightarrow>
      (\<exists>cf. NewContractFilter ReadFile Unmarshal configPath = Inr cf \<and>
            ContractFilter.factoryAddress cf = HexToAddress (Contracts_Factory_Address config) \<and>
            paymentAddress cf = HexToAddress (Contracts_Payment_Address config) \<and>
            enabled cf = EventFilters_Enabled config)) \<and>
   HexToAddress [] = 0"
  by (simp add: NewContractFilter_def HexToAddress_empty)

theorem NewContractFilter_fails_iff_witness:
  "NewContractFilter (\<lambda>path. Inl (LibraryError ''no such file or directory''))
      (\<lambda>data. Inr config_missing) ''contracts.json'' =
     Inl (Errorf ''failed to read config file''
            (Some (LibraryError ''no such file or directory''))) \<and>
   NewContractFilter (\<lambda>path. Inr []) (\<lambda>data. Inl (LibraryError ''unexpected end of JSON input''))
      ''contracts.json'' =
     Inl (Errorf ''failed to parse config''
            (Some (LibraryError ''unexpected end of JSON input''))) \<and>
   (\<exists>cf. NewContractFilter (\<lambda>path. Inr []) (\<lambda>data. Inr config_missing) ''contracts.json'' = Inr cf \<and>
         ContractFilter.factoryAddress cf = 0)"
  using NewContractFilter_fails_iff
      [where ReadFile = "\<lambda>path. Inl (LibraryError ''no such file or directory'')"
         and configPath = "''contracts.json''"
         and err = "LibraryError ''no such file or directory''"
         and Unmarshal = "\<lambda>data. Inr config_missing"]
    NewContractFilter_fails_iff
      [where ReadFile = "\<lambda>path. Inr []" and configPath = "''contracts.json''" and data = "[]"
         and Unmarshal = "\<lambda>data. Inl (LibraryError ''unexpected end of JSON input'')"
         and err = "LibraryError ''unexpected end of JSON input''"]
    NewContractFilter_fails_iff
      [where ReadFile = "\<lambda>path. Inr []" and configPath = "''contracts.json''" and data = "[]"
         and Unmarshal = "\<lambda>data. Inr config_missing" and config = config_missing]
  by auto

section \<open>Filter efficiency\<close>

text \<open>
  Rounding a value whose binary exponent is known, and the four roundings of
  \<open>(1.0 - 100/1000) * 100\<close>: the quotient is the \<open>float64\<close> nearest to one tenth,
  the difference rounds to the \<open>float64\<close> nearest to nine tenths, and the product
  rounds to 90.
\<close>

lemma float64_round_ulp:
  assumes u: "u = 2 powr of_int (e - 52)"
    and lo: "2 powr of_int e \<le> \<bar>x\<bar>" and hi: "\<bar>x\<bar> < 2 powr of_int (e + 1)"
  shows "float64_round x = of_int (round_even (x / u)) * u"
proof -
  have "0 < (2::real) powr of_int e" by simp
  with lo have pos: "0 < \<bar>x\<bar>" by linarith
  then have x0: "x \<noteq> 0" by simp
  have "\<lfloor>log 2 \<bar>x\<bar>\<rfloor> = e"
    using lo hi pos by (simp add: floor_log_eq_powr_iff)
  then show ?thesis
    using x0 by (simp add: float64_round_def u Let_def)
qed

lemma round_even_numeral: "round_even (numeral n) = numeral n"
  by (simp add: round_even_def)

lemma r100: "float64_of_int64 100 = 100"
proof -
  have "float64_round 100 = of_int (round_even (100 / (1 / 2 ^ 46))) * (1 / 2 ^ 46)"
    by (rule float64_round_ulp [where e = 6]) (simp_all add: powr_minus_divide)
  then show ?thesis by (simp add: float64_of_int64_def round_even_numeral)
qed

lemma r1000: "float64_of_int64 1000 = 1000"
proof -
  have "float64_round 1000 = of_int (round_even (1000 / (1 / 2 ^ 43))) * (1 / 2 ^ 43)"
    by (rule float64_round_ulp [where e = 9]) (simp_all add: powr_minus_divide)
  then show ?thesis by (simp add: float64_of_int64_def round_even_numeral)
qed

lemma rdiv: "float64_div 100 1000 = 7205759403792794 / 2 ^ 56"
proof -
  have "float64_round (100 / 1000) = of_int (round_even (100 / 1000 / (1 / 2 ^ 56))) * (1 / 2 ^ 56)"
    by (rule float64_round_ulp [where e = "-4"]) (simp_all add: powr_minus_divide)
  also have "round_even (100 / 1000 / (1 / 2 ^ 56)) = 7205759403792794"
    by (simp add: round_even_def Let_def)
  finally show ?thesis by (simp add: float64_div_def)
qed

lemma rsub: "float64_sub 1 (7205759403792794 / 2 ^ 56) = 8106479329266893 / 2 ^ 53"
proof -
  have "float64_round (1 - 7205759403792794 / 2 ^ 56)
      = of_int (round_even ((1 - 7205759403792794 / 2 ^ 56) / (1 / 2 ^ 53))) * (1 / 2 ^ 53)"
    by (rule float64_round_ulp [where e = "-1"]) (simp_all add: powr_minus_divide)
  also have "round_even ((1 - 7205759403792794 / 2 ^ 56) / (1 / 2 ^ 53)) = 8106479329266893"
    by (simp add: round_even_def Let_def)
  finally show ?thesis by (simp add: float64_sub_def)
qed

lemma rmul: "float64_mul (8106479329266893 / 2 ^ 53) 100 = 90"
proof -
  have "float64_round (8106479329266893 / 2 ^ 53 * 100)
      = of_int (round_even ((8106479329266893 / 2 ^ 53 * 100) / (1 / 2 ^ 46))) * (1 / 2 ^ 46)"
    by (rule float64_round_ulp [where e = 6]) (simp_all add: powr_minus_divide)
  also have "round_even ((8106479329266893 / 2 ^ 53 * 100) / (1 / 2 ^ 46)) = 6333186975989760"
    by (simp add: round_even_def Let_def)
  finally show ?thesis by (simp add: float64_mul_def)
qed

text \<open>
  C9. \<open>CalculateFilterEfficiency\<close> is 0 when the total is 0; otherwise it is
  \<open>(1 - retained/total) * 100\<close> evaluated in \<open>float64\<close>, each conversion and operation
  rounded. It reads the two counters only, so it takes the same value on any two
  statistics that agree on them. For a total of 1000 and 100 retained it is exactly 90.
\<close>

theorem CalculateFilterEfficiency_value:
  "(TotalLogsReceived stats = 0 \<longrightarrow> CalculateFilterEfficiency stats = 0) \<and>
   (TotalLogsReceived stats \<noteq> 0 \<longrightarrow>
      CalculateFilterEfficiency stats =
        float64_round
          (float64_round
             (1 - float64_round
                    (float64_round (of_int (sint (LogsAfterFilter stats))) /
                     float64_round (of_int (sint (TotalLogsReceived stats))))) * 100)) \<and>
   (TotalLogsReceived stats' = TotalLogsReceived stats \<and>
    LogsAfterFilter stats' = LogsAfterFilter stats \<longrightarrow>
      CalculateFilterEfficiency stats' = CalculateFilterEfficiency stats) \<and>
   (TotalLogsReceived stats = 1000 \<and> LogsAfterFilter stats = 100 \<longrightarrow>
      CalculateFilterEfficiency stats = 90)"
proof (intro conjI impI)
  assume "TotalLogsReceived stats = 0"
  then show "CalculateFilterEfficiency stats = 0"
    by (simp only: CalculateFilterEfficiency_def refl if_True)
next
  assume "TotalLogsReceived stats \<noteq> 0"
  then show "CalculateFilterEfficiency stats =
        float64_round
          (float64_round
             (1 - float64_round
                    (float64_round (of_int (sint (LogsAfterFilter stats))) /
                     float64_round (of_int (sint (TotalLogsReceived stats))))) * 100)"
    by (simp only: CalculateFilterEfficiency_def float64_mul_def float64_sub_def
        float64_div_def float64_of_int64_def if_False)
next
  assume "TotalLogsReceived stats' = TotalLogsReceived stats \<and>
          LogsAfterFilter stats' = LogsAfterFilter stats"
  then show "CalculateFilterEfficiency stats' = CalculateFilterEfficiency stats"
    by (simp only: CalculateFilterEfficiency_def)
next
  assume a: "TotalLogsReceived stats = 1000 \<and> LogsAfterFilter stats = 100"
  have "(1000 :: 64 word) \<noteq> 0" by simp
  with a have "CalculateFilterEfficiency stats =
          float64_mul
            (float64_sub 1 (float64_div (float64_of_int64 100) (float64_of_int64 1000))) 100"
    by (simp only: CalculateFilterEfficiency_def if_False)
  also have "\<dots> = 90"
    by (simp only: r100 r1000 rdiv rsub rmul)
  finally show "CalculateFilterEfficiency stats = 90" .
qed

theorem CalculateFilterEfficiency_value_witness:
  "CalculateFilterEfficiency
     \<lparr>TotalLogsReceived = 1000, LogsAfterFilter = 100, BlocksProcessed = 10,
      ContractsWatched = 3, FilterEnabled = True\<rparr> = 90 \<and>
   CalculateFilterEfficiency
     \<lparr>TotalLogsReceived = 0, LogsAfterFilter = 0, BlocksProcessed = 0,
      ContractsWatched = 3, FilterEnabled = True\<rparr> = 0 \<and>
   CalculateFilterEfficiency
     \<lparr>TotalLogsReceived = 1000, LogsAfterFilter = 100, BlocksProcessed = 77,
      ContractsWatched = 0, FilterEnabled = False\<rparr> = 90"
proof -
  let ?s1 = "\<lparr>TotalLogsReceived = 1000, LogsAfterFilter = 100, BlocksProcessed = 10,
             ContractsWatched = 3, FilterEnabled = True\<rparr>"
  let ?s2 = "\<lparr>TotalLogsReceived = 1000, LogsAfterFilter = 100, BlocksProcessed = 77,
             ContractsWatched = 0, FilterEnabled = False\<rparr>"
  let ?s0 = "\<lparr>TotalLogsReceived = 0, LogsAfterFilter = 0, BlocksProcessed = 0,
             ContractsWatched = 3, FilterEnabled = True\<rparr>"
  have h1: "TotalLogsReceived ?s1 = 1000 \<and> LogsAfterFilter ?s1 = 100" by simp
  have h2: "TotalLogsReceived ?s2 = TotalLogsReceived ?s1 \<and>
            LogsAfterFilter ?s2 = LogsAfterFilter ?s1" by simp
  have h0: "TotalLogsReceived ?s0 = 0" by simp
  note t1 = CalculateFilterEfficiency_value [of ?s1 ?s2]
  note t0 = CalculateFilterEfficiency_value [of ?s0 ?s0]
  have w1: "CalculateFilterEfficiency ?s1 = 90"
    using t1 [THEN conjunct2, THEN conjunct2, THEN conjunct2] h1 by (rule mp)
  have "CalculateFilterEfficiency ?s2 = CalculateFilterEfficiency ?s1"
    using t1 [THEN conjunct2, THEN conjunct2, THEN conjunct1] h2 by (rule mp)
  then have w2: "CalculateFilterEfficiency ?s2 = 90" by (simp only: w1)
  have w0: "CalculateFilterEfficiency ?s0 = 0"
    using t0 [THEN conjunct1] h0 by (rule mp)
  show ?thesis by (intro conjI w1 w0 w2)
qed

end
